theory Spec2Isabelle
  imports Main "HOL-Library.Word"
begin

section \<open>Values of the platform\<close>

text \<open>
  The component is TypeScript running on Node.js. Its module code is ECMAScript module
  code, hence strict-mode code. The model keeps the run-time values the code handles:
  strings are ASCII character lists, a number is an integral double or \<open>NaN\<close>, a property
  that may be \<open>undefined\<close> at run time is an \<open>option\<close>, and objects live in a store and
  are passed by reference.
\<close>

type_synonym byte = "8 word"
type_synonym addr = nat

text \<open>
  Modelled from the spec: the module \<open>errors\<close> is not part of the sources at hand.
  \<open>NotInSpanError\<close> is the component's single error kind and carries nothing.
  \<open>TypeError\<close> is the platform's own.
\<close>

datatype error = NotInSpanError | TypeError

datatype jsnum = Fin int | NaN

datatype jsval = JNum jsnum | JStr string

subsection \<open>Rendering numbers: \<open>Number.prototype.toString(16)\<close>\<close>

definition hexDigit :: "nat \<Rightarrow> char" where
  "hexDigit d = ''0123456789abcdef'' ! d"

fun hexNat :: "nat \<Rightarrow> string" where
  "hexNat n = (if n < 16 then [hexDigit n] else hexNat (n div 16) @ [hexDigit (n mod 16)])"

declare hexNat.simps [simp del]

definition toString16 :: "jsnum \<Rightarrow> string" where
  "toString16 x =
     (case x of
        NaN \<Rightarrow> ''NaN''
      | Fin n \<Rightarrow> (if n < 0 then ''-'' @ hexNat (nat (- n)) else hexNat (nat n)))"

text \<open>Reading a hexadecimal numeral back, to say what "rendered in hexadecimal" means.\<close>

definition hexDigitValue :: "char \<Rightarrow> nat" where
  "hexDigitValue c = (if c \<in> set ''0123456789'' then of_char c - 48 else of_char c - 87)"

definition hexValue :: "string \<Rightarrow> nat" where
  "hexValue cs = foldl (\<lambda>acc c. 16 * acc + hexDigitValue c) 0 cs"

text \<open>Reading a hexadecimal text back as bytes, two digits a byte.\<close>

fun fromHex :: "string \<Rightarrow> byte list" where
  "fromHex [] = []"
| "fromHex [a] = []"
| "fromHex (a # b # cs) = of_nat (16 * hexDigitValue a + hexDigitValue b) # fromHex cs"

subsection \<open>Converting to a number: \<open>Number(value)\<close>\<close>

text \<open>
  \<open>Number\<close> is the identity on a number. On a string it is the conversion
  \<open>StringToNumber\<close> of ECMAScript, which this model follows on one fragment, the decimal
  integer texts: after white space is trimmed from both ends, the empty string, which
  converts to 0, or decimal digits with an optional sign in front, whose value is at
  most \<open>2^53\<close> in magnitude, so that the double is that integer. \<open>decimalIntegerLiteral\<close>
  reads such a text and is \<open>None\<close> on every other string; \<open>numberModelled\<close> says that a
  value is a number or a string of the fragment.

  Outside the fragment are the numeric literals of the other forms (a fraction, an
  exponent, the prefixes \<open>0x\<close>, \<open>0o\<close>, \<open>0b\<close>, \<open>Infinity\<close>, integers beyond \<open>2^53\<close>), whose
  doubles the model does not compute, and the strings that are no numeric literal.
  There \<open>StringToNumber\<close> yields \<open>NaN\<close> as a placeholder, not as the result of the
  platform. No statement is made about the conversion of a value that is not
  \<open>numberModelled\<close>.
\<close>

definition isWhiteSpace :: "char \<Rightarrow> bool" where
  "isWhiteSpace c = (of_char c \<in> {9, 10, 11, 12, 13, 32 :: nat})"

definition isDecimalDigit :: "char \<Rightarrow> bool" where
  "isDecimalDigit c = (48 \<le> (of_char c :: nat) \<and> (of_char c :: nat) \<le> 57)"

definition trim :: "string \<Rightarrow> string" where
  "trim cs = rev (dropWhile isWhiteSpace (rev (dropWhile isWhiteSpace cs)))"

definition decimalValue :: "string \<Rightarrow> nat" where
  "decimalValue cs = foldl (\<lambda>acc c. 10 * acc + (of_char c - 48)) 0 cs"

definition unsignedDecimal :: "string \<Rightarrow> int option" where
  "unsignedDecimal cs =
     (if cs \<noteq> [] \<and> list_all isDecimalDigit cs \<and> int (decimalValue cs) \<le> 9007199254740992
      then Some (int (decimalValue cs)) else None)"

definition decimalIntegerLiteral :: "string \<Rightarrow> int option" where
  "decimalIntegerLiteral str =
     (case trim str of
        [] \<Rightarrow> Some 0
      | c # cs \<Rightarrow>
          (if c = CHR ''-'' then map_option uminus (unsignedDecimal cs)
           else if c = CHR ''+'' then unsignedDecimal cs
           else unsignedDecimal (c # cs)))"

definition StringToNumber :: "string \<Rightarrow> jsnum" where
  "StringToNumber str = (case decimalIntegerLiteral str of Some n \<Rightarrow> Fin n | None \<Rightarrow> NaN)"

definition Number_js :: "jsval \<Rightarrow> jsnum" where
  "Number_js v = (case v of JNum n \<Rightarrow> n | JStr str \<Rightarrow> StringToNumber str)"

definition numberModelled :: "jsval \<Rightarrow> bool" where
  "numberModelled v = (case v of JNum n \<Rightarrow> True | JStr str \<Rightarrow> decimalIntegerLiteral str \<noteq> None)"

section \<open>Records of the component\<close>

text \<open>
  \<open>Trace\<close> is the exposed subset of a trace context. The four fields are the ones
  \<open>isInsideOfTraceSpan\<close> compares with \<open>undefined\<close>, so each is an \<open>option\<close>.
\<close>

record Trace =
  traceId :: "string option"
  version :: "jsnum option"
  parentId :: "string option"
  traceFlags :: "jsnum option"

text \<open>The payload attached to a context: \<open>null\<close>, a primitive, or a reference to an object.\<close>

datatype jsdata = DNull | DPrim jsval | DObj addr

record TraceContext = Trace +
  name :: string
  id' :: string
  traceState :: "addr option"
  data :: "jsdata option"

text \<open>
  Modelled from the spec: the module \<open>constants\<close> is not part of the sources at hand. The
  invalid span id is "a fixed all-zero hex string of the same length as a generated span
  id (16 characters)".
\<close>

definition INVALID_SPAN_ID :: string where
  "INVALID_SPAN_ID = ''0000000000000000''"

section \<open>Identity and formatting (module \<open>logic\<close>)\<close>

text \<open>
  The template literal evaluates its substitutions from left to right. Calling
  \<open>toString\<close> on \<open>undefined\<close> throws a \<open>TypeError\<close>; an \<open>undefined\<close> substitution itself
  renders as the text \<open>undefined\<close>.
\<close>

definition templateString :: "string option \<Rightarrow> string" where
  "templateString x = (case x of None \<Rightarrow> ''undefined'' | Some str \<Rightarrow> str)"

definition buildTraceString :: "Trace \<Rightarrow> error + string" where
  "buildTraceString traceParent =
     (case version traceParent of
        None \<Rightarrow> Inl TypeError
      | Some v \<Rightarrow>
          (case traceFlags traceParent of
             None \<Rightarrow> Inl TypeError
           | Some f \<Rightarrow>
               Inr (toString16 v @ ''-'' @ templateString (traceId traceParent) @ ''-'' @
                    templateString (parentId traceParent) @ ''-'' @ toString16 f)))"


section \<open>Objects, the store and the source of randomness\<close>

text \<open>
  A trace state is an ordinary object whose own properties map strings to strings.
  \<open>entries\<close> lists them in the order \<open>Object.keys\<close> and \<open>Object.entries\<close> report them:
  array-index keys first, in ascending order, then the other keys in the order of their
  creation. \<open>frozen\<close> records \<open>Object.freeze\<close>: no property can be added, changed or
  removed any more.
\<close>

record jsobject =
  entries :: "(string \<times> string) list"
  frozen :: bool

definition emptyObject :: jsobject where
  "emptyObject = \<lparr>entries = [], frozen = False\<rparr>"

definition isArrayIndex :: "string \<Rightarrow> bool" where
  "isArrayIndex k =
     (k \<noteq> [] \<and> list_all isDecimalDigit k \<and> (k = ''0'' \<or> hd k \<noteq> CHR ''0'') \<and>
      decimalValue k < 4294967295)"

fun insertIndexProperty :: "string \<Rightarrow> string \<Rightarrow> (string \<times> string) list \<Rightarrow> (string \<times> string) list" where
  "insertIndexProperty k v [] = [(k, v)]"
| "insertIndexProperty k v ((k', v') # es) =
     (if isArrayIndex k' \<and> decimalValue k' < decimalValue k
      then (k', v') # insertIndexProperty k v es
      else (k, v) # (k', v') # es)"

definition createProperty :: "string \<Rightarrow> string \<Rightarrow> (string \<times> string) list \<Rightarrow> (string \<times> string) list" where
  "createProperty k v es = (if isArrayIndex k then insertIndexProperty k v es else es @ [(k, v)])"

definition updateProperty :: "string \<Rightarrow> string \<Rightarrow> (string \<times> string) list \<Rightarrow> (string \<times> string) list" where
  "updateProperty k v es = map (\<lambda>(k', v'). if k' = k then (k', v) else (k', v')) es"

definition removeProperty :: "string \<Rightarrow> (string \<times> string) list \<Rightarrow> (string \<times> string) list" where
  "removeProperty k es = filter (\<lambda>(k', v'). k' \<noteq> k) es"

text \<open>
  The state of one execution branch: the context objects and the trace-state and payload
  objects, each with the next free address; the store of the \<open>AsyncLocalStorage\<close>
  instance (\<open>None\<close> when nothing is bound); and the bytes \<open>randomBytes\<close> will deliver,
  with the number already drawn.
\<close>

record state =
  ctxs :: "addr \<Rightarrow> TraceContext"
  nextCtx :: addr
  objs :: "addr \<Rightarrow> jsobject"
  nextObj :: addr
  store :: "addr option"
  entropy :: "nat \<Rightarrow> byte"
  drawn :: nat

text \<open>Statements in sequence: the first exception ends the sequence.\<close>

definition andThen ::
  "(state \<Rightarrow> (error + 'a) \<times> state) \<Rightarrow> ('a \<Rightarrow> state \<Rightarrow> (error + 'b) \<times> state) \<Rightarrow>
   state \<Rightarrow> (error + 'b) \<times> state" where
  "andThen m f s = (case m s of (Inl e, s') \<Rightarrow> (Inl e, s') | (Inr x, s') \<Rightarrow> f x s')"

subsection \<open>Operations on objects\<close>

definition newObject :: "state \<Rightarrow> addr \<times> state" where
  "newObject s = (nextObj s, s\<lparr>objs := (objs s)(nextObj s := emptyObject), nextObj := Suc (nextObj s)\<rparr>)"

definition Object_keys :: "state \<Rightarrow> addr \<Rightarrow> string list" where
  "Object_keys s ob = map fst (entries (objs s ob))"

definition Object_entries :: "state \<Rightarrow> addr \<Rightarrow> (string \<times> string) list" where
  "Object_entries s ob = entries (objs s ob)"

definition Object_freeze :: "addr \<Rightarrow> state \<Rightarrow> state" where
  "Object_freeze ob s = s\<lparr>objs := (objs s)(ob := (objs s ob)\<lparr>frozen := True\<rparr>)\<rparr>"

text \<open>
  The assignment \<open>object[key] = value\<close> in strict mode. An own property is overwritten,
  unless the object is frozen; the only inherited accessor, \<open>__proto__\<close>, ignores a
  string; any other key becomes a new own property, unless the object is frozen.
\<close>

definition Object_set :: "addr \<Rightarrow> string \<Rightarrow> string \<Rightarrow> state \<Rightarrow> (error + unit) \<times> state" where
  "Object_set ob k v s =
     (let obj = objs s ob in
      if k \<in> set (map fst (entries obj)) then
        (if frozen obj then (Inl TypeError, s)
         else (Inr (), s\<lparr>objs := (objs s)(ob := obj\<lparr>entries := updateProperty k v (entries obj)\<rparr>)\<rparr>))
      else if k = ''__proto__'' then (Inr (), s)
      else if frozen obj then (Inl TypeError, s)
      else (Inr (), s\<lparr>objs := (objs s)(ob := obj\<lparr>entries := createProperty k v (entries obj)\<rparr>)\<rparr>))"

text \<open>
  \<open>delete object[key]\<close> in strict mode: removing an own property of a frozen object
  throws; a key that is no own property is left alone.
\<close>

definition Object_delete :: "addr \<Rightarrow> string \<Rightarrow> state \<Rightarrow> (error + unit) \<times> state" where
  "Object_delete ob k s =
     (let obj = objs s ob in
      if k \<in> set (map fst (entries obj)) then
        (if frozen obj then (Inl TypeError, s)
         else (Inr (), s\<lparr>objs := (objs s)(ob := obj\<lparr>entries := removeProperty k (entries obj)\<rparr>)\<rparr>))
      else (Inr (), s))"

text \<open>\<open>Array.prototype.reduce\<close> with an initial value; the callback also gets index and array.\<close>

fun reduceFrom :: "('b \<Rightarrow> 'a \<Rightarrow> nat \<Rightarrow> 'a list \<Rightarrow> 'b) \<Rightarrow> 'a list \<Rightarrow> nat \<Rightarrow> 'a list \<Rightarrow> 'b \<Rightarrow> 'b" where
  "reduceFrom f arr i [] acc = acc"
| "reduceFrom f arr i (x # xs) acc = reduceFrom f arr (Suc i) xs (f acc x i arr)"

definition reduce :: "('b \<Rightarrow> 'a \<Rightarrow> nat \<Rightarrow> 'a list \<Rightarrow> 'b) \<Rightarrow> 'b \<Rightarrow> 'a list \<Rightarrow> 'b" where
  "reduce f init arr = reduceFrom f arr 0 arr init"

subsection \<open>Random identifiers (module \<open>logic\<close>)\<close>

definition randomBytes :: "nat \<Rightarrow> state \<Rightarrow> byte list \<times> state" where
  "randomBytes n s = (map (entropy s) [drawn s ..< drawn s + n], s\<lparr>drawn := drawn s + n\<rparr>)"

definition hexByte :: "byte \<Rightarrow> string" where
  "hexByte b = [hexDigit (unat b div 16), hexDigit (unat b mod 16)]"

definition toHex :: "byte list \<Rightarrow> string" where
  "toHex bs = concat (map hexByte bs)"

definition toLowerCase :: "string \<Rightarrow> string" where
  "toLowerCase cs =
     map (\<lambda>c. if c \<in> set ''ABCDEFGHIJKLMNOPQRSTUVWXYZ'' then char_of (of_char c + (32 :: nat)) else c) cs"

definition generateRandomBytesHexString :: "nat \<Rightarrow> state \<Rightarrow> string \<times> state" where
  "generateRandomBytesHexString len s =
     (let (bytes, s') = randomBytes len s in (toLowerCase (toHex bytes), s'))"

definition generateTraceId :: "state \<Rightarrow> string \<times> state" where
  "generateTraceId s = generateRandomBytesHexString 16 s"

definition generateSpanId :: "state \<Rightarrow> string \<times> state" where
  "generateSpanId s = generateRandomBytesHexString 8 s"

text \<open>\<open>buildTraceContext\<close> creates a new context object and returns the reference to it.\<close>

definition buildTraceContext ::
  "string \<Rightarrow> string option \<Rightarrow> string option \<Rightarrow> jsnum option \<Rightarrow> jsnum option \<Rightarrow>
   addr option \<Rightarrow> jsdata option \<Rightarrow> state \<Rightarrow> addr \<times> state" where
  "buildTraceContext nm parentId' traceId' version' traceFlags' traceState' data' s =
     (let (spanId, s1) = generateSpanId s;
          c = \<lparr>traceId = traceId',
               version = version',
               parentId = Some (case parentId' of None \<Rightarrow> INVALID_SPAN_ID | Some p \<Rightarrow> p),
               traceFlags = traceFlags',
               name = nm,
               id' = spanId,
               traceState = traceState',
               data = data'\<rparr>
      in (nextCtx s1, s1\<lparr>ctxs := (ctxs s1)(nextCtx s1 := c), nextCtx := Suc (nextCtx s1)\<rparr>))"

section \<open>The tracer component\<close>

text \<open>
  The seed context a caller may pass to \<open>span\<close>: a trace context without \<open>id\<close> and
  \<open>name\<close>. The code passes \<open>version\<close> and \<open>traceFlags\<close> through \<open>Number\<close>, so they are
  kept as the values the caller gave (a number or a string); it lets a missing
  \<open>parentId\<close> default; \<open>traceId\<close> has its declared type.
\<close>

record Seed =
  seed_parentId :: "string option"
  seed_traceId :: string
  seed_version :: jsval
  seed_traceFlags :: jsval
  seed_traceState :: "addr option"
  seed_data :: "jsdata option"

subsection \<open>\<open>AsyncLocalStorage\<close>\<close>

definition getStore :: "state \<Rightarrow> addr option" where
  "getStore s = store s"

text \<open>
  \<open>run\<close> makes the given object the store, calls the function, and puts the previous
  store back, whether the function returns or throws; it returns or throws what the
  function did.
\<close>

definition run :: "addr \<Rightarrow> (state \<Rightarrow> (error + 'a) \<times> state) \<Rightarrow> state \<Rightarrow> (error + 'a) \<times> state" where
  "run newStore callback s =
     (let (r, s') = callback (s\<lparr>store := Some newStore\<rparr>) in (r, s'\<lparr>store := store s\<rparr>))"

subsection \<open>\<open>span\<close>\<close>

text \<open>The three branches of \<open>span\<close> that build \<open>newContext\<close>.\<close>

definition span_newContext :: "string \<Rightarrow> Seed option \<Rightarrow> state \<Rightarrow> addr \<times> state" where
  "span_newContext nm traceContext s =
     (let parentTraceContext = getStore s in
      case traceContext of
        Some tc \<Rightarrow>
          buildTraceContext nm
            (seed_parentId tc)
            (Some (seed_traceId tc))
            (Some (Number_js (seed_version tc)))
            (Some (Number_js (seed_traceFlags tc)))
            (seed_traceState tc)
            (seed_data tc) s
      | None \<Rightarrow>
          (case parentTraceContext of
             Some p \<Rightarrow>
               buildTraceContext nm
                 (traceId (ctxs s p))
                 (traceId (ctxs s p))
                 (version (ctxs s p))
                 (traceFlags (ctxs s p))
                 (traceState (ctxs s p))
                 None s
           | None \<Rightarrow>
               (let (tid, s1) = generateTraceId s in
                buildTraceContext nm (Some INVALID_SPAN_ID) (Some tid) (Some (Fin 0)) (Some (Fin 0))
                  None None s1)))"

definition span ::
  "string \<Rightarrow> (state \<Rightarrow> (error + 'a) \<times> state) \<Rightarrow> Seed option \<Rightarrow> state \<Rightarrow> (error + 'a) \<times> state" where
  "span nm tracedFunction traceContext s =
     (let (newContext, s1) = span_newContext nm traceContext s in run newContext tracedFunction s1)"

text \<open>The state in which \<open>span\<close> calls the traced function.\<close>

definition span_enter :: "string \<Rightarrow> Seed option \<Rightarrow> state \<Rightarrow> state" where
  "span_enter nm traceContext s =
     (let (newContext, s1) = span_newContext nm traceContext s in s1\<lparr>store := Some newContext\<rparr>)"

subsection \<open>Accessors and mutators\<close>

definition isInsideOfTraceSpan :: "state \<Rightarrow> bool" where
  "isInsideOfTraceSpan s =
     (case getStore s of
        None \<Rightarrow> False
      | Some currentContext \<Rightarrow>
          parentId (ctxs s currentContext) \<noteq> None \<and>
          traceId (ctxs s currentContext) \<noteq> None \<and>
          traceFlags (ctxs s currentContext) \<noteq> None \<and>
          version (ctxs s currentContext) \<noteq> None)"

definition getSpanId :: "state \<Rightarrow> (error + string) \<times> state" where
  "getSpanId s =
     (case getStore s of
        None \<Rightarrow> (Inl NotInSpanError, s)
      | Some currentContext \<Rightarrow> (Inr (id' (ctxs s currentContext)), s))"

definition getTrace :: "state \<Rightarrow> (error + Trace) \<times> state" where
  "getTrace s =
     (case getStore s of
        None \<Rightarrow> (Inl NotInSpanError, s)
      | Some currentContext \<Rightarrow>
          (Inr \<lparr>traceId = traceId (ctxs s currentContext),
                version = version (ctxs s currentContext),
                parentId = parentId (ctxs s currentContext),
                traceFlags = traceFlags (ctxs s currentContext)\<rparr>, s))"

definition getTraceString :: "state \<Rightarrow> (error + string) \<times> state" where
  "getTraceString s =
     (case getTrace s of
        (Inl e, s') \<Rightarrow> (Inl e, s')
      | (Inr traceParent, s') \<Rightarrow> (buildTraceString traceParent, s'))"

definition getTraceChild :: "state \<Rightarrow> (error + Trace) \<times> state" where
  "getTraceChild s =
     (case getStore s of
        None \<Rightarrow> (Inl NotInSpanError, s)
      | Some currentContext \<Rightarrow>
          (Inr \<lparr>traceId = traceId (ctxs s currentContext),
                version = version (ctxs s currentContext),
                parentId = Some (id' (ctxs s currentContext)),
                traceFlags = traceFlags (ctxs s currentContext)\<rparr>, s))"

definition getTraceChildString :: "state \<Rightarrow> (error + string) \<times> state" where
  "getTraceChildString s =
     (case getTraceChild s of
        (Inl e, s') \<Rightarrow> (Inl e, s')
      | (Inr traceChild, s') \<Rightarrow> (buildTraceString traceChild, s'))"

text \<open>
  \<open>getTraceState\<close> returns the reference to the trace-state object of the context itself
  (\<open>None\<close> is \<open>null\<close>), after freezing that object.
\<close>

definition getTraceState :: "state \<Rightarrow> (error + addr option) \<times> state" where
  "getTraceState s =
     (case getStore s of
        None \<Rightarrow> (Inl NotInSpanError, s)
      | Some currentContext \<Rightarrow>
          (case traceState (ctxs s currentContext) of
             None \<Rightarrow> (Inr None, s)
           | Some ts \<Rightarrow> (Inr (Some ts), Object_freeze ts s)))"

text \<open>
  The callback of the \<open>reduce\<close> in \<open>getTraceStateString\<close>. The entry is the array
  \<open>[key, value]\<close>; substituted into the template it renders as \<open>key,value\<close>.
\<close>

definition traceStateReducer :: "string \<Rightarrow> string \<times> string \<Rightarrow> nat \<Rightarrow> (string \<times> string) list \<Rightarrow> string" where
  "traceStateReducer acc cur idx arr =
     acc @ ''='' @ (fst cur @ '','' @ snd cur) @
     (if int idx \<noteq> int (length arr) - 1 then '','' else [])"

definition getTraceStateString :: "state \<Rightarrow> (error + string option) \<times> state" where
  "getTraceStateString s =
     (case getTraceState s of
        (Inl e, s') \<Rightarrow> (Inl e, s')
      | (Inr None, s') \<Rightarrow> (Inr None, s')
      | (Inr (Some ts), s') \<Rightarrow>
          (if length (Object_keys s' ts) > 0
           then (Inr (Some (reduce traceStateReducer [] (Object_entries s' ts))), s')
           else (Inr None, s')))"

definition getContextData :: "state \<Rightarrow> (error + jsdata) \<times> state" where
  "getContextData s =
     (case getStore s of
        None \<Rightarrow> (Inl NotInSpanError, s)
      | Some currentContext \<Rightarrow>
          (case data (ctxs s currentContext) of
             None \<Rightarrow> (Inr DNull, s)
           | Some DNull \<Rightarrow> (Inr DNull, s)
           | Some (DPrim v) \<Rightarrow> (Inr (DPrim v), s)
           | Some (DObj ob) \<Rightarrow> (Inr (DObj ob), Object_freeze ob s)))"

definition setContextData :: "jsdata option \<Rightarrow> state \<Rightarrow> (error + unit) \<times> state" where
  "setContextData d s =
     (case getStore s of
        None \<Rightarrow> (Inl NotInSpanError, s)
      | Some currentContext \<Rightarrow>
          (Inr (), s\<lparr>ctxs := (ctxs s)(currentContext := (ctxs s currentContext)\<lparr>data := d\<rparr>)\<rparr>))"

definition setTraceStateProperty :: "string \<Rightarrow> string \<Rightarrow> state \<Rightarrow> (error + unit) \<times> state" where
  "setTraceStateProperty key val s =
     (case getStore s of
        None \<Rightarrow> (Inl NotInSpanError, s)
      | Some currentContext \<Rightarrow>
          (case traceState (ctxs s currentContext) of
             None \<Rightarrow>
               (let (ob, s1) = newObject s;
                    s2 = s1\<lparr>ctxs := (ctxs s1)(currentContext := (ctxs s1 currentContext)\<lparr>traceState := Some ob\<rparr>)\<rparr>
                in Object_set ob key val s2)
           | Some ts \<Rightarrow> Object_set ts key val s))"

definition deleteTraceStateProperty :: "string \<Rightarrow> state \<Rightarrow> (error + unit) \<times> state" where
  "deleteTraceStateProperty key s =
     (case getStore s of
        None \<Rightarrow> (Inl NotInSpanError, s)
      | Some currentContext \<Rightarrow>
          (case traceState (ctxs s currentContext) of
             None \<Rightarrow> (Inr (), s)
           | Some ts \<Rightarrow> Object_delete ts key s))"

section \<open>The serialization the specification describes\<close>

text \<open>
  The trace-state header text in the specification's words: the entries as \<open>key=value\<close>
  pairs joined by commas, in iteration order.
\<close>

fun joinWith :: "string \<Rightarrow> string list \<Rightarrow> string" where
  "joinWith sep [] = []"
| "joinWith sep [x] = x"
| "joinWith sep (x # y # ys) = x @ sep @ joinWith sep (y # ys)"

definition specTraceStateString :: "(string \<times> string) list \<Rightarrow> string" where
  "specTraceStateString es = joinWith '','' (map (\<lambda>(k, v). k @ ''='' @ v) es)"

section \<open>A concrete starting state\<close>

definition emptyContext :: TraceContext where
  "emptyContext = \<lparr>traceId = None, version = None, parentId = None, traceFlags = None,
                   name = [], id' = [], traceState = None, data = None\<rparr>"

text \<open>Nothing is bound, no object exists, and the random bytes to come are 0, 1, 2, ...\<close>

definition initialState :: state where
  "initialState = \<lparr>ctxs = (\<lambda>a. emptyContext), nextCtx = 0, objs = (\<lambda>a. emptyObject), nextObj = 0,
                   store = None, entropy = (\<lambda>i. of_nat i), drawn = 0\<rparr>"

text \<open>What a reader sees of the trace state of the bound context: its entries, if any.\<close>

definition boundTraceStateEntries :: "state \<Rightarrow> (string \<times> string) list option" where
  "boundTraceStateEntries s =
     (case getStore s of
        None \<Rightarrow> None
      | Some currentContext \<Rightarrow> map_option (Object_entries s) (traceState (ctxs s currentContext)))"

text \<open>
  A host that holds the object \<open>{aStateKey: 'aStateValue'}\<close> at address 0, and a seed
  context that carries this object as its trace state, with \<open>version\<close> and \<open>traceFlags\<close>
  given as the strings \<open>00\<close>.
\<close>

definition hostState :: state where
  "hostState =
     initialState\<lparr>objs := (objs initialState)(0 := \<lparr>entries = [(''aStateKey'', ''aStateValue'')], frozen = False\<rparr>),
                  nextObj := 1\<rparr>"

definition seedWithTraceState :: Seed where
  "seedWithTraceState =
     \<lparr>seed_parentId = Some ''aParentId'', seed_traceId = ''aTraceId'', seed_version = JStr ''00'',
      seed_traceFlags = JStr ''00'', seed_traceState = Some 0, seed_data = None\<rparr>"

text \<open>
  Two states inside a span: one entered from the starting state with no seed, one
  entered by the host above with its seed.
\<close>

definition freshSpanState :: state where
  "freshSpanState = span_enter ''parent'' None initialState"

definition seededSpanState :: state where
  "seededSpanState = span_enter ''parent'' (Some seedWithTraceState) hostState"

text \<open>
  Inside the seeded span, a nested span with no seed whose traced function sets one
  trace-state property; the state is the one the nested span leaves.
\<close>

definition afterChildWrite :: state where
  "afterChildWrite = snd (span ''child'' (setTraceStateProperty ''aKey'' ''aValue'') None seededSpanState)"

text \<open>
  Inside a span: set \<open>k\<close>, read the trace state, set \<open>k\<close> again, read again; and the
  states after the first two steps.
\<close>

definition setReadSetRead :: "state \<Rightarrow> (error + addr option) \<times> state" where
  "setReadSetRead =
     andThen (setTraceStateProperty ''k'' ''v'') (\<lambda>u1.
     andThen getTraceState (\<lambda>u2.
     andThen (setTraceStateProperty ''k'' ''w'') (\<lambda>u3.
     getTraceState)))"

definition afterFirstSet :: state where
  "afterFirstSet = snd (setTraceStateProperty ''k'' ''v'' freshSpanState)"

definition afterRead :: state where
  "afterRead = snd (getTraceState afterFirstSet)"

section \<open>Hexadecimal rendering\<close>

lemma hexDigitValue_hexDigit: "d < 16 \<Longrightarrow> hexDigitValue (hexDigit d) = d"
proof -
  assume "d < 16"
  then have "d \<in> {0, 1, 2, 3, 4, 5, 6, 7, 8, 9, 10, 11, 12, 13, 14, 15}"
    by (simp, arith)
  then show ?thesis
    by (auto simp: hexDigit_def hexDigitValue_def)
qed

lemma hexValue_snoc: "hexValue (cs @ [c]) = 16 * hexValue cs + hexDigitValue c"
  by (simp add: hexValue_def)

lemma hexValue_hexNat: "hexValue (hexNat n) = n"
proof (induction n rule: hexNat.induct)
  case (1 n)
  show ?case
  proof (cases "n < 16")
    case True
    then show ?thesis
      by (simp add: hexNat.simps [of n] hexValue_def hexDigitValue_hexDigit)
  next
    case False
    then have "hexValue (hexNat (n div 16)) = n div 16"
      using "1" by simp
    with False show ?thesis
      by (simp add: hexNat.simps [of n] hexValue_snoc hexDigitValue_hexDigit)
  qed
qed

text \<open>
  Claim C8. For a trace record with its four fields present, \<open>buildTraceString\<close> returns
  \<open>version-traceId-parentId-traceFlags\<close>, the two numbers rendered by \<open>toString(16)\<close>;
  that rendering of a non-negative integer is its hexadecimal numeral (reading it back
  in base 16 gives the integer); and the record of the specification's example renders
  as \<open>0-T-P-1\<close>. The function takes no state and returns none: it has no side effect.
\<close>

theorem buildTraceString_format:
  "buildTraceString \<lparr>traceId = Some t, version = Some v, parentId = Some p, traceFlags = Some f\<rparr>
     = Inr (toString16 v @ ''-'' @ t @ ''-'' @ p @ ''-'' @ toString16 f)
   \<and> hexValue (toString16 (Fin (int n))) = n
   \<and> buildTraceString \<lparr>traceId = Some ''T'', version = Some (Fin 0), parentId = Some ''P'',
         traceFlags = Some (Fin 1)\<rparr> = Inr ''0-T-P-1''"
proof -
  have a: "buildTraceString \<lparr>traceId = Some t, version = Some v, parentId = Some p, traceFlags = Some f\<rparr>
     = Inr (toString16 v @ ''-'' @ t @ ''-'' @ p @ ''-'' @ toString16 f)" for t v p f
    by (simp add: buildTraceString_def templateString_def)
  have b: "hexValue (toString16 (Fin (int n))) = n"
    by (simp add: toString16_def hexValue_hexNat)
  have c: "toString16 (Fin 0) = ''0''" "toString16 (Fin 1) = ''1''"
    by (simp_all add: toString16_def hexNat.simps hexDigit_def)
  show ?thesis
    using b by (simp add: a c)
qed

section \<open>How \<open>span\<close> builds and binds a context\<close>

lemma generateRandomBytesHexString_eq:
  "generateRandomBytesHexString len s =
     (toLowerCase (toHex (map (entropy s) [drawn s ..< drawn s + len])), s\<lparr>drawn := drawn s + len\<rparr>)"
  by (simp add: generateRandomBytesHexString_def randomBytes_def)

lemma length_toHex: "length (toHex bs) = 2 * length bs"
  by (induction bs) (simp_all add: toHex_def hexByte_def)

lemma length_generateSpanId: "length (fst (generateSpanId s)) = 16"
  by (simp add: generateSpanId_def generateRandomBytesHexString_eq toLowerCase_def length_toHex)

lemma length_generateTraceId: "length (fst (generateTraceId s)) = 32"
  by (simp add: generateTraceId_def generateRandomBytesHexString_eq toLowerCase_def length_toHex)

lemma snd_generateSpanId: "snd (generateSpanId s) = s\<lparr>drawn := drawn s + 8\<rparr>"
  by (simp add: generateSpanId_def generateRandomBytesHexString_eq)

lemma snd_generateTraceId: "snd (generateTraceId s) = s\<lparr>drawn := drawn s + 16\<rparr>"
  by (simp add: generateTraceId_def generateRandomBytesHexString_eq)

lemma buildTraceContext_eq:
  "buildTraceContext nm pid tid ver fl ts d s =
     (nextCtx s,
      s\<lparr>drawn := drawn s + 8,
        ctxs := (ctxs s)(nextCtx s :=
          \<lparr>traceId = tid, version = ver,
           parentId = Some (case pid of None \<Rightarrow> INVALID_SPAN_ID | Some p \<Rightarrow> p),
           traceFlags = fl, name = nm, id' = fst (generateSpanId s), traceState = ts, data = d\<rparr>),
        nextCtx := Suc (nextCtx s)\<rparr>)"
  by (simp add: buildTraceContext_def split_def Let_def snd_generateSpanId)

lemma span_newContext_seed:
  "span_newContext nm (Some tc) s =
     buildTraceContext nm (seed_parentId tc) (Some (seed_traceId tc))
       (Some (Number_js (seed_version tc))) (Some (Number_js (seed_traceFlags tc)))
       (seed_traceState tc) (seed_data tc) s"
  by (simp add: span_newContext_def)

lemma span_newContext_nested:
  "store s = Some p \<Longrightarrow>
   span_newContext nm None s =
     buildTraceContext nm (traceId (ctxs s p)) (traceId (ctxs s p)) (version (ctxs s p))
       (traceFlags (ctxs s p)) (traceState (ctxs s p)) None s"
  by (simp add: span_newContext_def getStore_def)

lemma span_newContext_fresh:
  "store s = None \<Longrightarrow>
   span_newContext nm None s =
     buildTraceContext nm (Some INVALID_SPAN_ID) (Some (fst (generateTraceId s))) (Some (Fin 0))
       (Some (Fin 0)) None None (snd (generateTraceId s))"
  by (simp add: span_newContext_def getStore_def split_def Let_def)

lemma fst_span_newContext: "fst (span_newContext nm seed s) = nextCtx s"
  by (cases seed; cases "store s")
     (simp_all add: span_newContext_seed span_newContext_nested span_newContext_fresh
        buildTraceContext_eq snd_generateTraceId)

lemma store_span_newContext: "store (snd (span_newContext nm seed s)) = store s"
  by (cases seed; cases "store s")
     (simp_all add: span_newContext_seed span_newContext_nested span_newContext_fresh
        buildTraceContext_eq snd_generateTraceId)

lemma span_run:
  "span nm tracedFunction seed s =
     (fst (tracedFunction (span_enter nm seed s)),
      (snd (tracedFunction (span_enter nm seed s)))\<lparr>store := store s\<rparr>)"
  by (simp add: span_def span_enter_def run_def split_def Let_def store_span_newContext)

lemma store_span_enter: "store (span_enter nm seed s) = Some (nextCtx s)"
  by (simp add: span_enter_def split_def fst_span_newContext)

text \<open>
  Claim C5. For every call \<open>span(name, work, seed?)\<close>: \<open>work\<close> is called in the state
  in which the derived context is the bound one; what \<open>span\<close> returns or raises is
  exactly what \<open>work\<close> returned or raised there; and afterwards the binding is the one
  that was in place before the call (a context or none), whichever way \<open>work\<close> ended.
  The state \<open>span\<close> leaves differs from the one \<open>work\<close> left in the binding only.
\<close>

theorem span_binds_then_restores:
  "span nm tracedFunction traceContext s =
     (fst (tracedFunction (span_enter nm traceContext s)),
      (snd (tracedFunction (span_enter nm traceContext s)))\<lparr>store := store s\<rparr>)
   \<and> getStore (span_enter nm traceContext s) = Some (fst (span_newContext nm traceContext s))
   \<and> fst (span nm tracedFunction traceContext s) = fst (tracedFunction (span_enter nm traceContext s))
   \<and> getStore (snd (span nm tracedFunction traceContext s)) = getStore s"
  by (simp add: span_run getStore_def store_span_enter fst_span_newContext)

lemma span_enter_seed:
  "span_enter nm (Some tc) s =
     s\<lparr>drawn := drawn s + 8,
       ctxs := (ctxs s)(nextCtx s :=
         \<lparr>traceId = Some (seed_traceId tc), version = Some (Number_js (seed_version tc)),
          parentId = Some (case seed_parentId tc of None \<Rightarrow> INVALID_SPAN_ID | Some p \<Rightarrow> p),
          traceFlags = Some (Number_js (seed_traceFlags tc)), name = nm,
          id' = fst (generateSpanId s), traceState = seed_traceState tc, data = seed_data tc\<rparr>),
       nextCtx := Suc (nextCtx s),
       store := Some (nextCtx s)\<rparr>"
  by (simp add: span_enter_def span_newContext_seed buildTraceContext_eq)

lemma span_enter_nested:
  "store s = Some p \<Longrightarrow>
   span_enter nm None s =
     s\<lparr>drawn := drawn s + 8,
       ctxs := (ctxs s)(nextCtx s :=
         \<lparr>traceId = traceId (ctxs s p), version = version (ctxs s p),
          parentId = Some (case traceId (ctxs s p) of None \<Rightarrow> INVALID_SPAN_ID | Some t \<Rightarrow> t),
          traceFlags = traceFlags (ctxs s p), name = nm,
          id' = fst (generateSpanId s), traceState = traceState (ctxs s p), data = None\<rparr>),
       nextCtx := Suc (nextCtx s),
       store := Some (nextCtx s)\<rparr>"
  by (simp add: span_enter_def span_newContext_nested buildTraceContext_eq)

lemma span_enter_fresh:
  "store s = None \<Longrightarrow>
   span_enter nm None s =
     s\<lparr>drawn := drawn s + 24,
       ctxs := (ctxs s)(nextCtx s :=
         \<lparr>traceId = Some (fst (generateTraceId s)), version = Some (Fin 0),
          parentId = Some INVALID_SPAN_ID,
          traceFlags = Some (Fin 0), name = nm,
          id' = fst (generateSpanId (snd (generateTraceId s))), traceState = None, data = None\<rparr>),
       nextCtx := Suc (nextCtx s),
       store := Some (nextCtx s)\<rparr>"
  by (simp add: span_enter_def span_newContext_fresh buildTraceContext_eq snd_generateTraceId)

subsection \<open>Identifiers are the hexadecimal text of the random bytes\<close>

lemma hexDigit_cases:
  "(d :: nat) < 16 \<Longrightarrow> d \<in> {0, 1, 2, 3, 4, 5, 6, 7, 8, 9, 10, 11, 12, 13, 14, 15}"
  by (simp, arith)

lemma toLowerCase_hexDigit: "d < 16 \<Longrightarrow> toLowerCase [hexDigit d] = [hexDigit d]"
  using hexDigit_cases [of d] by (auto simp: toLowerCase_def hexDigit_def)

lemma toLowerCase_append: "toLowerCase (xs @ ys) = toLowerCase xs @ toLowerCase ys"
  by (simp add: toLowerCase_def)

lemma nibbles: "unat (b :: byte) div 16 < 16" "unat b mod 16 < 16"
proof -
  have "unat b < 2 ^ LENGTH(8)"
    by (rule unsigned_less)
  then have "unat b < 256"
    by simp
  then show "unat b div 16 < 16" "unat b mod 16 < 16"
    by simp_all
qed

lemma toLowerCase_hexByte: "toLowerCase (hexByte b) = hexByte b"
proof -
  have "toLowerCase (hexByte b)
      = toLowerCase [hexDigit (unat b div 16)] @ toLowerCase [hexDigit (unat b mod 16)]"
    by (simp add: hexByte_def toLowerCase_def)
  then show ?thesis
    by (simp add: toLowerCase_hexDigit nibbles hexByte_def)
qed

lemma toLowerCase_toHex: "toLowerCase (toHex bs) = toHex bs"
proof (induction bs)
  case Nil
  then show ?case by (simp add: toHex_def toLowerCase_def)
next
  case (Cons b bs)
  have "toHex (b # bs) = hexByte b @ toHex bs"
    by (simp add: toHex_def)
  with Cons show ?case
    by (simp add: toLowerCase_append toLowerCase_hexByte)
qed

lemma fromHex_hexByte: "fromHex (hexByte b @ cs) = b # fromHex cs"
proof -
  have "16 * (unat b div 16) + unat b mod 16 = unat b"
    by simp
  then show ?thesis
    by (simp add: hexByte_def hexDigitValue_hexDigit nibbles)
qed

lemma fromHex_toHex: "fromHex (toHex bs) = bs"
proof (induction bs)
  case Nil
  then show ?case by (simp add: toHex_def)
next
  case (Cons b bs)
  have "toHex (b # bs) = hexByte b @ toHex bs"
    by (simp add: toHex_def)
  with Cons show ?case
    by (simp add: fromHex_hexByte)
qed

lemma generateSpanId_bytes:
  "fst (generateSpanId s) = toLowerCase (toHex (map (entropy s) [drawn s ..< drawn s + 8]))"
  by (simp add: generateSpanId_def generateRandomBytesHexString_eq)

lemma generateTraceId_bytes:
  "fst (generateTraceId s) = toLowerCase (toHex (map (entropy s) [drawn s ..< drawn s + 16]))"
  by (simp add: generateTraceId_def generateRandomBytesHexString_eq)

lemma fromHex_generateSpanId:
  "fromHex (fst (generateSpanId s)) = map (entropy s) [drawn s ..< drawn s + 8]"
  by (simp add: generateSpanId_bytes toLowerCase_toHex fromHex_toHex)

lemma fromHex_generateTraceId:
  "fromHex (fst (generateTraceId s)) = map (entropy s) [drawn s ..< drawn s + 16]"
  by (simp add: generateTraceId_bytes toLowerCase_toHex fromHex_toHex)

text \<open>
  Claim C4. When a context is bound, with trace id \<open>X\<close>, and \<open>span\<close> is called with
  no seed, the context bound for the traced function is a new one that has the parent's
  \<open>traceId\<close> (still \<open>X\<close>), \<open>version\<close>, \<open>traceFlags\<close> and \<open>traceState\<close>; its \<open>parentId\<close> is
  \<open>X\<close>, the parent's trace id, whatever the parent's own span id is; it has no \<open>data\<close>.
  Its \<open>id\<close> is freshly generated: it is what \<open>generateSpanId\<close> produces at this call,
  namely the lowercase hexadecimal text, 16 characters long, of the next eight bytes
  of the random source, which are consumed by the call; read back as bytes, the id is
  these eight bytes.
\<close>

theorem nested_span_context:
  assumes "getStore s = Some p" and "traceId (ctxs s p) = Some X"
  shows "getStore (span_enter nm None s) = Some (nextCtx s)
    \<and> traceId (ctxs (span_enter nm None s) (nextCtx s)) = Some X
    \<and> parentId (ctxs (span_enter nm None s) (nextCtx s)) = Some X
    \<and> version (ctxs (span_enter nm None s) (nextCtx s)) = version (ctxs s p)
    \<and> traceFlags (ctxs (span_enter nm None s) (nextCtx s)) = traceFlags (ctxs s p)
    \<and> traceState (ctxs (span_enter nm None s) (nextCtx s)) = traceState (ctxs s p)
    \<and> data (ctxs (span_enter nm None s) (nextCtx s)) = None
    \<and> id' (ctxs (span_enter nm None s) (nextCtx s)) = fst (generateSpanId s)
    \<and> id' (ctxs (span_enter nm None s) (nextCtx s))
        = toLowerCase (toHex (map (entropy s) [drawn s ..< drawn s + 8]))
    \<and> fromHex (id' (ctxs (span_enter nm None s) (nextCtx s)))
        = map (entropy s) [drawn s ..< drawn s + 8]
    \<and> length (id' (ctxs (span_enter nm None s) (nextCtx s))) = 16
    \<and> drawn (span_enter nm None s) = drawn s + 8
    \<and> fst (span nm tracedFunction None s) = fst (tracedFunction (span_enter nm None s))"
proof -
  from assms(1) have st: "store s = Some p"
    by (simp add: getStore_def)
  have i: "id' (ctxs (span_enter nm None s) (nextCtx s)) = fst (generateSpanId s)"
    by (simp add: span_enter_nested [OF st])
  have b: "id' (ctxs (span_enter nm None s) (nextCtx s))
        = toLowerCase (toHex (map (entropy s) [drawn s ..< drawn s + 8]))"
    unfolding i by (rule generateSpanId_bytes)
  have f: "fromHex (id' (ctxs (span_enter nm None s) (nextCtx s)))
        = map (entropy s) [drawn s ..< drawn s + 8]"
    unfolding i by (rule fromHex_generateSpanId)
  have l: "length (id' (ctxs (span_enter nm None s) (nextCtx s))) = 16"
    unfolding i by (rule length_generateSpanId)
  have r: "getStore (span_enter nm None s) = Some (nextCtx s)
    \<and> traceId (ctxs (span_enter nm None s) (nextCtx s)) = Some X
    \<and> parentId (ctxs (span_enter nm None s) (nextCtx s)) = Some X
    \<and> version (ctxs (span_enter nm None s) (nextCtx s)) = version (ctxs s p)
    \<and> traceFlags (ctxs (span_enter nm None s) (nextCtx s)) = traceFlags (ctxs s p)
    \<and> traceState (ctxs (span_enter nm None s) (nextCtx s)) = traceState (ctxs s p)
    \<and> data (ctxs (span_enter nm None s) (nextCtx s)) = None
    \<and> drawn (span_enter nm None s) = drawn s + 8
    \<and> fst (span nm tracedFunction None s) = fst (tracedFunction (span_enter nm None s))"
    using assms(2) by (simp add: span_enter_nested [OF st] getStore_def span_run)
  from i b f l r show ?thesis
    by blast
qed

text \<open>
  The theorem at the child of the seeded span of the host. The parent's id is the text
  of the bytes 0 to 7, the child's the text of the bytes 8 to 15.
\<close>

theorem nested_span_context_witness:
  "getStore seededSpanState = Some 0 \<and> traceId (ctxs seededSpanState 0) = Some ''aTraceId''
   \<and> traceId (ctxs (span_enter ''child'' None seededSpanState) (nextCtx seededSpanState)) = Some ''aTraceId''
   \<and> parentId (ctxs (span_enter ''child'' None seededSpanState) (nextCtx seededSpanState)) = Some ''aTraceId''
   \<and> data (ctxs (span_enter ''child'' None seededSpanState) (nextCtx seededSpanState)) = None
   \<and> length (id' (ctxs (span_enter ''child'' None seededSpanState) (nextCtx seededSpanState))) = 16
   \<and> fromHex (id' (ctxs (span_enter ''child'' None seededSpanState) (nextCtx seededSpanState)))
        = map (entropy seededSpanState) [drawn seededSpanState ..< drawn seededSpanState + 8]
   \<and> id' (ctxs seededSpanState 0) = ''0001020304050607''
   \<and> id' (ctxs (span_enter ''child'' None seededSpanState) 1) = ''08090a0b0c0d0e0f''"
proof -
  have h1: "getStore seededSpanState = Some 0"
    by code_simp
  have h2: "traceId (ctxs seededSpanState 0) = Some ''aTraceId''"
    by code_simp
  have v1: "id' (ctxs seededSpanState 0) = ''0001020304050607''"
    by code_simp
  have v2: "id' (ctxs (span_enter ''child'' None seededSpanState) 1) = ''08090a0b0c0d0e0f''"
    by code_simp
  show ?thesis
    using h1 h2 v1 v2
      nested_span_context [OF h1 h2, where nm = "''child''" and tracedFunction = getSpanId]
    by blast
qed

text \<open>
  Claim C7. When nothing is bound and \<open>span\<close> is called with no seed, the context
  bound for the traced function has the invalid span id, sixteen zeros, as \<open>parentId\<close>,
  and \<open>version\<close> 0, \<open>traceFlags\<close> 0 and no trace state. Its \<open>traceId\<close> is freshly
  generated: it is what \<open>generateTraceId\<close> produces at this call, namely the lowercase
  hexadecimal text, 32 characters long, of the next sixteen bytes of the random source;
  read back as bytes, it is these sixteen bytes. Its span id is the text of the eight
  bytes after them, and all twenty-four bytes are consumed by the call.
\<close>

theorem fresh_span_context:
  assumes "getStore s = None"
  shows "getStore (span_enter nm None s) = Some (nextCtx s)
    \<and> parentId (ctxs (span_enter nm None s) (nextCtx s)) = Some INVALID_SPAN_ID
    \<and> INVALID_SPAN_ID = replicate 16 (CHR ''0'')
    \<and> traceId (ctxs (span_enter nm None s) (nextCtx s)) = Some (fst (generateTraceId s))
    \<and> traceId (ctxs (span_enter nm None s) (nextCtx s))
        = Some (toLowerCase (toHex (map (entropy s) [drawn s ..< drawn s + 16])))
    \<and> fromHex (fst (generateTraceId s)) = map (entropy s) [drawn s ..< drawn s + 16]
    \<and> length (fst (generateTraceId s)) = 32
    \<and> id' (ctxs (span_enter nm None s) (nextCtx s)) = fst (generateSpanId (snd (generateTraceId s)))
    \<and> id' (ctxs (span_enter nm None s) (nextCtx s))
        = toLowerCase (toHex (map (entropy s) [drawn s + 16 ..< drawn s + 24]))
    \<and> drawn (span_enter nm None s) = drawn s + 24
    \<and> version (ctxs (span_enter nm None s) (nextCtx s)) = Some (Fin 0)
    \<and> traceFlags (ctxs (span_enter nm None s) (nextCtx s)) = Some (Fin 0)
    \<and> traceState (ctxs (span_enter nm None s) (nextCtx s)) = None
    \<and> fst (span nm tracedFunction None s) = fst (tracedFunction (span_enter nm None s))"
proof -
  from assms have st: "store s = None"
    by (simp add: getStore_def)
  have z: "INVALID_SPAN_ID = replicate 16 (CHR ''0'')"
    by (simp add: INVALID_SPAN_ID_def numeral_eq_Suc)
  have t: "traceId (ctxs (span_enter nm None s) (nextCtx s)) = Some (fst (generateTraceId s))"
    by (simp add: span_enter_fresh [OF st])
  have tb: "traceId (ctxs (span_enter nm None s) (nextCtx s))
        = Some (toLowerCase (toHex (map (entropy s) [drawn s ..< drawn s + 16])))"
    unfolding t by (simp add: generateTraceId_bytes)
  have i: "id' (ctxs (span_enter nm None s) (nextCtx s)) = fst (generateSpanId (snd (generateTraceId s)))"
    by (simp add: span_enter_fresh [OF st])
  have ib: "id' (ctxs (span_enter nm None s) (nextCtx s))
        = toLowerCase (toHex (map (entropy s) [drawn s + 16 ..< drawn s + 24]))"
    unfolding i by (simp add: generateSpanId_bytes snd_generateTraceId add.commute)
  have r: "getStore (span_enter nm None s) = Some (nextCtx s)
    \<and> parentId (ctxs (span_enter nm None s) (nextCtx s)) = Some INVALID_SPAN_ID
    \<and> drawn (span_enter nm None s) = drawn s + 24
    \<and> version (ctxs (span_enter nm None s) (nextCtx s)) = Some (Fin 0)
    \<and> traceFlags (ctxs (span_enter nm None s) (nextCtx s)) = Some (Fin 0)
    \<and> traceState (ctxs (span_enter nm None s) (nextCtx s)) = None
    \<and> fst (span nm tracedFunction None s) = fst (tracedFunction (span_enter nm None s))"
    by (simp add: span_enter_fresh [OF st] getStore_def span_run)
  from z t tb i ib r fromHex_generateTraceId [of s] length_generateTraceId [of s] show ?thesis
    by blast
qed

text \<open>
  The theorem at the starting state, where nothing is bound and the random bytes are
  0, 1, 2, ...
\<close>

theorem fresh_span_context_witness:
  "getStore initialState = None
   \<and> parentId (ctxs (span_enter ''s'' None initialState) (nextCtx initialState)) = Some INVALID_SPAN_ID
   \<and> traceId (ctxs (span_enter ''s'' None initialState) (nextCtx initialState))
        = Some (fst (generateTraceId initialState))
   \<and> fromHex (fst (generateTraceId initialState))
        = map (entropy initialState) [drawn initialState ..< drawn initialState + 16]
   \<and> length (fst (generateTraceId initialState)) = 32
   \<and> version (ctxs (span_enter ''s'' None initialState) (nextCtx initialState)) = Some (Fin 0)
   \<and> traceFlags (ctxs (span_enter ''s'' None initialState) (nextCtx initialState)) = Some (Fin 0)
   \<and> traceState (ctxs (span_enter ''s'' None initialState) (nextCtx initialState)) = None
   \<and> traceId (ctxs (span_enter ''s'' None initialState) 0) = Some ''000102030405060708090a0b0c0d0e0f''
   \<and> id' (ctxs (span_enter ''s'' None initialState) 0) = ''1011121314151617''"
proof -
  have h: "getStore initialState = None"
    by code_simp
  have v1: "traceId (ctxs (span_enter ''s'' None initialState) 0) = Some ''000102030405060708090a0b0c0d0e0f''"
    by code_simp
  have v2: "id' (ctxs (span_enter ''s'' None initialState) 0) = ''1011121314151617''"
    by code_simp
  show ?thesis
    using h v1 v2 fresh_span_context [OF h, where nm = "''s''" and tracedFunction = getSpanId]
    by blast
qed

subsection \<open>\<open>Number\<close> on the decimal integer texts\<close>

lemma digit_not_space: "isDecimalDigit c \<Longrightarrow> \<not> isWhiteSpace c"
  by (auto simp: isDecimalDigit_def isWhiteSpace_def)

lemma sign_not_space: "\<not> isWhiteSpace (CHR ''-'')" "\<not> isWhiteSpace (CHR ''+'')"
  by (simp_all add: isWhiteSpace_def)

lemma sign_not_digit: "\<not> isDecimalDigit (CHR ''-'')" "\<not> isDecimalDigit (CHR ''+'')"
  by (simp_all add: isDecimalDigit_def)

lemma trim_spaces: "list_all isWhiteSpace ws \<Longrightarrow> trim ws = []"
proof -
  assume "list_all isWhiteSpace ws"
  then have d: "dropWhile isWhiteSpace ws = []"
    by (induction ws) simp_all
  show ?thesis
    unfolding trim_def d by simp
qed

lemma trim_padded:
  assumes "list_all isWhiteSpace ws1" and "list_all isWhiteSpace ws2"
    and "body \<noteq> []" and "\<not> isWhiteSpace (hd body)" and "\<not> isWhiteSpace (last body)"
  shows "trim (ws1 @ body @ ws2) = body"
proof -
  have "dropWhile isWhiteSpace (ws1 @ body @ ws2) = dropWhile isWhiteSpace (body @ ws2)"
    using assms(1) by (intro dropWhile_append2) (simp add: list_all_iff)
  also from assms(3,4) have "\<dots> = body @ ws2"
    by (cases body) simp_all
  finally have front: "dropWhile isWhiteSpace (ws1 @ body @ ws2) = body @ ws2" .
  have "dropWhile isWhiteSpace (rev ws2 @ rev body) = dropWhile isWhiteSpace (rev body)"
    using assms(2) by (intro dropWhile_append2) (simp add: list_all_iff)
  also from assms(3,5) have "\<dots> = rev body"
    by (cases body rule: rev_cases) simp_all
  finally show ?thesis
    by (simp add: trim_def front)
qed

lemma digits_body:
  assumes "ds \<noteq> []" and "list_all isDecimalDigit ds"
  shows "\<not> isWhiteSpace (hd ds)" and "\<not> isWhiteSpace (last ds)"
    and "hd ds \<noteq> CHR ''-''" and "hd ds \<noteq> CHR ''+''"
proof -
  from assms have h: "isDecimalDigit (hd ds)" and l: "isDecimalDigit (last ds)"
    by (simp_all add: list_all_iff)
  from h show "\<not> isWhiteSpace (hd ds)" by (rule digit_not_space)
  from l show "\<not> isWhiteSpace (last ds)" by (rule digit_not_space)
  from h show "hd ds \<noteq> CHR ''-''" using sign_not_digit(1) by auto
  from h show "hd ds \<noteq> CHR ''+''" using sign_not_digit(2) by auto
qed

lemma decimalIntegerLiteral_unsigned:
  assumes "list_all isWhiteSpace ws1" and "list_all isWhiteSpace ws2"
    and "ds \<noteq> []" and "list_all isDecimalDigit ds" and "int (decimalValue ds) \<le> 9007199254740992"
  shows "decimalIntegerLiteral (ws1 @ ds @ ws2) = Some (int (decimalValue ds))"
proof -
  have "trim (ws1 @ ds @ ws2) = ds"
    using assms(1-3) digits_body(1,2) [OF assms(3,4)] by (rule trim_padded)
  moreover obtain c cs where ds: "ds = c # cs"
    using assms(3) by (cases ds) auto
  moreover have "c \<noteq> CHR ''-''" "c \<noteq> CHR ''+''"
    using digits_body(3,4) [OF assms(3,4)] ds by simp_all
  ultimately show ?thesis
    using assms(3-5) by (simp add: decimalIntegerLiteral_def unsignedDecimal_def)
qed

lemma decimalIntegerLiteral_signed:
  assumes "list_all isWhiteSpace ws1" and "list_all isWhiteSpace ws2"
    and "ds \<noteq> []" and "list_all isDecimalDigit ds" and "int (decimalValue ds) \<le> 9007199254740992"
  shows "decimalIntegerLiteral (ws1 @ ''+'' @ ds @ ws2) = Some (int (decimalValue ds))"
    and "decimalIntegerLiteral (ws1 @ ''-'' @ ds @ ws2) = Some (- int (decimalValue ds))"
proof -
  have l: "last (c # ds) = last ds" for c :: char
    using assms(3) by simp
  have "trim (ws1 @ (''+'' @ ds) @ ws2) = ''+'' @ ds"
    using assms(1,2) digits_body(2) [OF assms(3,4)]
    by (intro trim_padded) (simp_all add: sign_not_space l)
  then show "decimalIntegerLiteral (ws1 @ ''+'' @ ds @ ws2) = Some (int (decimalValue ds))"
    using assms(3-5) by (simp add: decimalIntegerLiteral_def unsignedDecimal_def)
  have "trim (ws1 @ (''-'' @ ds) @ ws2) = ''-'' @ ds"
    using assms(1,2) digits_body(2) [OF assms(3,4)]
    by (intro trim_padded) (simp_all add: sign_not_space l)
  then show "decimalIntegerLiteral (ws1 @ ''-'' @ ds @ ws2) = Some (- int (decimalValue ds))"
    using assms(3-5) by (simp add: decimalIntegerLiteral_def unsignedDecimal_def)
qed

lemma decimalValue_snoc: "decimalValue (ds @ [d]) = 10 * decimalValue ds + (of_char d - 48)"
  by (simp add: decimalValue_def)

lemma Number_js_string: "Number_js (JStr str) = (case decimalIntegerLiteral str of Some n \<Rightarrow> Fin n | None \<Rightarrow> NaN)"
  by (simp add: Number_js_def StringToNumber_def)

text \<open>
  Claim C10. Let a seed be given whose \<open>version\<close> and \<open>traceFlags\<close> are numbers or
  strings of the modelled fragment. Then \<open>version\<close> and \<open>traceFlags\<close> of the bound
  context are \<open>Number\<close> of the seed's values, and on the fragment \<open>Number\<close> is this: a
  number stays as it is; decimal digits, with white space allowed around them, become
  the integer they denote, up to \<open>2^53\<close>, and a sign in front of the digits is kept; a
  string of white space only, the empty string included, becomes 0. So the string \<open>00\<close>
  becomes the number 0, which is not the string the seed carried. The strings \<open>0x10\<close>,
  \<open>1.5\<close>, \<open>1e3\<close>, \<open>Infinity\<close>, \<open>abc\<close> and \<open>9007199254740993\<close> are not in the fragment:
  nothing is stated about a seed that carries one of them.
\<close>

theorem seed_span_numbers:
  assumes "numberModelled (seed_version tc)" and "numberModelled (seed_traceFlags tc)"
  shows "getStore (span_enter nm (Some tc) s) = Some (nextCtx s)
   \<and> version (ctxs (span_enter nm (Some tc) s) (nextCtx s)) = Some (Number_js (seed_version tc))
   \<and> traceFlags (ctxs (span_enter nm (Some tc) s) (nextCtx s)) = Some (Number_js (seed_traceFlags tc))
   \<and> fst (span nm tracedFunction (Some tc) s) = fst (tracedFunction (span_enter nm (Some tc) s))
   \<and> numberModelled (JNum n) \<and> Number_js (JNum n) = n
   \<and> (list_all isWhiteSpace ws1 \<and> list_all isWhiteSpace ws2 \<and> ds \<noteq> [] \<and> list_all isDecimalDigit ds
        \<and> int (decimalValue ds) \<le> 9007199254740992 \<longrightarrow>
          numberModelled (JStr (ws1 @ ds @ ws2))
        \<and> Number_js (JStr (ws1 @ ds @ ws2)) = Fin (int (decimalValue ds))
        \<and> numberModelled (JStr (ws1 @ ''+'' @ ds @ ws2))
        \<and> Number_js (JStr (ws1 @ ''+'' @ ds @ ws2)) = Fin (int (decimalValue ds))
        \<and> numberModelled (JStr (ws1 @ ''-'' @ ds @ ws2))
        \<and> Number_js (JStr (ws1 @ ''-'' @ ds @ ws2)) = Fin (- int (decimalValue ds)))
   \<and> (list_all isWhiteSpace ws \<longrightarrow> numberModelled (JStr ws) \<and> Number_js (JStr ws) = Fin 0)
   \<and> decimalValue [] = 0
   \<and> decimalValue (ds' @ [d]) = 10 * decimalValue ds' + (of_char d - 48)
   \<and> Number_js (JStr ''00'') = Fin 0
   \<and> Number_js (JStr ''01'') = Fin 1
   \<and> Number_js (JStr ''255'') = Fin 255
   \<and> Number_js (JStr '' 12 '') = Fin 12
   \<and> Number_js (JStr ''-5'') = Fin (- 5)
   \<and> Number_js (JStr []) = Fin 0
   \<and> JNum (Number_js (JStr ''00'')) \<noteq> JStr ''00''
   \<and> \<not> numberModelled (JStr ''0x10'')
   \<and> \<not> numberModelled (JStr ''1.5'')
   \<and> \<not> numberModelled (JStr ''1e3'')
   \<and> \<not> numberModelled (JStr ''Infinity'')
   \<and> \<not> numberModelled (JStr ''abc'')
   \<and> \<not> numberModelled (JStr ''9007199254740993'')"
proof -
  have bound: "getStore (span_enter nm (Some tc) s) = Some (nextCtx s)
   \<and> version (ctxs (span_enter nm (Some tc) s) (nextCtx s)) = Some (Number_js (seed_version tc))
   \<and> traceFlags (ctxs (span_enter nm (Some tc) s) (nextCtx s)) = Some (Number_js (seed_traceFlags tc))
   \<and> fst (span nm tracedFunction (Some tc) s) = fst (tracedFunction (span_enter nm (Some tc) s))"
    by (simp add: span_enter_seed getStore_def span_run)
  have num: "numberModelled (JNum n) \<and> Number_js (JNum n) = n"
    by (simp add: numberModelled_def Number_js_def)
  have dec: "list_all isWhiteSpace ws1 \<and> list_all isWhiteSpace ws2 \<and> ds \<noteq> [] \<and> list_all isDecimalDigit ds
        \<and> int (decimalValue ds) \<le> 9007199254740992 \<longrightarrow>
          numberModelled (JStr (ws1 @ ds @ ws2))
        \<and> Number_js (JStr (ws1 @ ds @ ws2)) = Fin (int (decimalValue ds))
        \<and> numberModelled (JStr (ws1 @ ''+'' @ ds @ ws2))
        \<and> Number_js (JStr (ws1 @ ''+'' @ ds @ ws2)) = Fin (int (decimalValue ds))
        \<and> numberModelled (JStr (ws1 @ ''-'' @ ds @ ws2))
        \<and> Number_js (JStr (ws1 @ ''-'' @ ds @ ws2)) = Fin (- int (decimalValue ds))"
  proof
    assume a: "list_all isWhiteSpace ws1 \<and> list_all isWhiteSpace ws2 \<and> ds \<noteq> [] \<and> list_all isDecimalDigit ds
        \<and> int (decimalValue ds) \<le> 9007199254740992"
    then have u: "decimalIntegerLiteral (ws1 @ ds @ ws2) = Some (int (decimalValue ds))"
      by (intro decimalIntegerLiteral_unsigned) simp_all
    from a have p: "decimalIntegerLiteral (ws1 @ ''+'' @ ds @ ws2) = Some (int (decimalValue ds))"
      by (intro decimalIntegerLiteral_signed(1)) simp_all
    from a have m: "decimalIntegerLiteral (ws1 @ ''-'' @ ds @ ws2) = Some (- int (decimalValue ds))"
      by (intro decimalIntegerLiteral_signed(2)) simp_all
    show "numberModelled (JStr (ws1 @ ds @ ws2))
        \<and> Number_js (JStr (ws1 @ ds @ ws2)) = Fin (int (decimalValue ds))
        \<and> numberModelled (JStr (ws1 @ ''+'' @ ds @ ws2))
        \<and> Number_js (JStr (ws1 @ ''+'' @ ds @ ws2)) = Fin (int (decimalValue ds))
        \<and> numberModelled (JStr (ws1 @ ''-'' @ ds @ ws2))
        \<and> Number_js (JStr (ws1 @ ''-'' @ ds @ ws2)) = Fin (- int (decimalValue ds))"
      unfolding numberModelled_def Number_js_string jsval.case u p m by simp
  qed
  have emp: "list_all isWhiteSpace ws \<longrightarrow> numberModelled (JStr ws) \<and> Number_js (JStr ws) = Fin 0"
    by (simp add: numberModelled_def Number_js_string decimalIntegerLiteral_def trim_spaces)
  have val: "decimalValue [] = 0"
    "decimalValue (ds' @ [d]) = 10 * decimalValue ds' + (of_char d - 48)"
    by (simp_all add: decimalValue_def)
  have e1: "Number_js (JStr ''00'') = Fin 0"
    by code_simp
  have e2: "Number_js (JStr ''01'') = Fin 1"
    by code_simp
  have e3: "Number_js (JStr ''255'') = Fin 255"
    by code_simp
  have e4: "Number_js (JStr '' 12 '') = Fin 12"
    by code_simp
  have e5: "Number_js (JStr ''-5'') = Fin (- 5)"
    by code_simp
  have e6: "Number_js (JStr []) = Fin 0"
    by code_simp
  have e7: "JNum (Number_js (JStr ''00'')) \<noteq> JStr ''00''"
    by simp
  have n1: "\<not> numberModelled (JStr ''0x10'')"
    by code_simp
  have n2: "\<not> numberModelled (JStr ''1.5'')"
    by code_simp
  have n3: "\<not> numberModelled (JStr ''1e3'')"
    by code_simp
  have n4: "\<not> numberModelled (JStr ''Infinity'')"
    by code_simp
  have n5: "\<not> numberModelled (JStr ''abc'')"
    by code_simp
  have n6: "\<not> numberModelled (JStr ''9007199254740993'')"
    by (simp add: numberModelled_def decimalIntegerLiteral_def trim_def isWhiteSpace_def
        unsignedDecimal_def isDecimalDigit_def decimalValue_def)
  from bound have b1: "getStore (span_enter nm (Some tc) s) = Some (nextCtx s)"
    and b2: "version (ctxs (span_enter nm (Some tc) s) (nextCtx s)) = Some (Number_js (seed_version tc))"
    and b3: "traceFlags (ctxs (span_enter nm (Some tc) s) (nextCtx s)) = Some (Number_js (seed_traceFlags tc))"
    and b4: "fst (span nm tracedFunction (Some tc) s) = fst (tracedFunction (span_enter nm (Some tc) s))"
    by simp_all
  from num have m1: "numberModelled (JNum n)" and m2: "Number_js (JNum n) = n"
    by simp_all
  show ?thesis
    by (intro conjI b1 b2 b3 b4 m1 m2 dec emp val e1 e2 e3 e4 e5 e6 e7 n1 n2 n3 n4 n5 n6)
qed

text \<open>
  The theorem at the seed of the host, whose \<open>version\<close> and \<open>traceFlags\<close> are the
  string \<open>00\<close>, and at the digits \<open>12\<close> with a blank on either side.
\<close>

theorem seed_span_numbers_witness:
  "numberModelled (seed_version seedWithTraceState)
   \<and> numberModelled (seed_traceFlags seedWithTraceState)
   \<and> seed_version seedWithTraceState = JStr ''00''
   \<and> version (ctxs (span_enter ''parent'' (Some seedWithTraceState) hostState) (nextCtx hostState))
        = Some (Number_js (seed_version seedWithTraceState))
   \<and> version (ctxs seededSpanState 0) = Some (Fin 0)
   \<and> traceFlags (ctxs seededSpanState 0) = Some (Fin 0)
   \<and> list_all isWhiteSpace '' '' \<and> ''12'' \<noteq> [] \<and> list_all isDecimalDigit ''12''
   \<and> int (decimalValue ''12'') \<le> 9007199254740992
   \<and> decimalValue ''12'' = 12
   \<and> Number_js (JStr ('' '' @ ''12'' @ '' '')) = Fin (int (decimalValue ''12''))
   \<and> Number_js (JStr ('' '' @ ''-'' @ ''12'' @ '' '')) = Fin (- int (decimalValue ''12''))
   \<and> Number_js (JStr '' '') = Fin 0"
proof -
  have h1: "numberModelled (seed_version seedWithTraceState)"
    by code_simp
  have h2: "numberModelled (seed_traceFlags seedWithTraceState)"
    by code_simp
  have v: "seed_version seedWithTraceState = JStr ''00''"
    by (simp add: seedWithTraceState_def)
  have c1: "version (ctxs seededSpanState 0) = Some (Fin 0)"
    by code_simp
  have c2: "traceFlags (ctxs seededSpanState 0) = Some (Fin 0)"
    by code_simp
  have p: "list_all isWhiteSpace '' ''" "''12'' \<noteq> []" "list_all isDecimalDigit ''12''"
    "int (decimalValue ''12'') \<le> 9007199254740992" "decimalValue ''12'' = 12"
    by (simp_all add: isWhiteSpace_def isDecimalDigit_def decimalValue_def)
  note t = seed_span_numbers [OF h1 h2, where nm = "''parent''" and s = hostState
      and tracedFunction = getSpanId and n = "Fin 0" and ?ws1.0 = "'' ''" and ?ws2.0 = "'' ''"
      and ds = "''12''" and ws = "'' ''" and ds' = "''1''" and d = "CHR ''2''"]
  from h1 h2 v c1 c2 p t show ?thesis
    by blast
qed

section \<open>Outside of a span\<close>

lemma getTrace_outside: "store s = None \<Longrightarrow> getTrace s = (Inl NotInSpanError, s)"
  by (simp add: getTrace_def getStore_def)

lemma getTraceChild_outside: "store s = None \<Longrightarrow> getTraceChild s = (Inl NotInSpanError, s)"
  by (simp add: getTraceChild_def getStore_def)

lemma getTraceState_outside: "store s = None \<Longrightarrow> getTraceState s = (Inl NotInSpanError, s)"
  by (simp add: getTraceState_def getStore_def)

text \<open>
  Claim C6. When no context is bound, each of \<open>getSpanId\<close>, \<open>getTrace\<close>,
  \<open>getTraceString\<close>, \<open>getTraceChild\<close>, \<open>getTraceChildString\<close>, \<open>getTraceState\<close>,
  \<open>getTraceStateString\<close>, \<open>getContextData\<close>, \<open>setContextData\<close>,
  \<open>setTraceStateProperty\<close> and \<open>deleteTraceStateProperty\<close> raises \<open>NotInSpanError\<close> and
  leaves the state as it was. \<open>isInsideOfTraceSpan\<close> returns a boolean in every state:
  false when nothing is bound, and in general whether a context is bound whose
  \<open>parentId\<close>, \<open>traceId\<close>, \<open>traceFlags\<close> and \<open>version\<close> are all defined.
\<close>

theorem accessors_outside_of_span:
  assumes "getStore s = None"
  shows "getSpanId s = (Inl NotInSpanError, s)
    \<and> getTrace s = (Inl NotInSpanError, s)
    \<and> getTraceString s = (Inl NotInSpanError, s)
    \<and> getTraceChild s = (Inl NotInSpanError, s)
    \<and> getTraceChildString s = (Inl NotInSpanError, s)
    \<and> getTraceState s = (Inl NotInSpanError, s)
    \<and> getTraceStateString s = (Inl NotInSpanError, s)
    \<and> getContextData s = (Inl NotInSpanError, s)
    \<and> setContextData d s = (Inl NotInSpanError, s)
    \<and> setTraceStateProperty key val s = (Inl NotInSpanError, s)
    \<and> deleteTraceStateProperty key s = (Inl NotInSpanError, s)
    \<and> isInsideOfTraceSpan s = False
    \<and> isInsideOfTraceSpan s' =
        (\<exists>c. getStore s' = Some c \<and> parentId (ctxs s' c) \<noteq> None \<and> traceId (ctxs s' c) \<noteq> None
           \<and> traceFlags (ctxs s' c) \<noteq> None \<and> version (ctxs s' c) \<noteq> None)"
proof -
  from assms have st: "store s = None"
    by (simp add: getStore_def)
  have a: "getSpanId s = (Inl NotInSpanError, s)"
    using st by (simp add: getSpanId_def getStore_def)
  have b: "getTraceString s = (Inl NotInSpanError, s)"
    by (simp add: getTraceString_def getTrace_outside [OF st])
  have c: "getTraceChildString s = (Inl NotInSpanError, s)"
    by (simp add: getTraceChildString_def getTraceChild_outside [OF st])
  have d: "getTraceStateString s = (Inl NotInSpanError, s)"
    by (simp add: getTraceStateString_def getTraceState_outside [OF st])
  have e: "getContextData s = (Inl NotInSpanError, s)"
    using st by (simp add: getContextData_def getStore_def)
  have f: "setContextData d s = (Inl NotInSpanError, s)"
    using st by (simp add: setContextData_def getStore_def)
  have g: "setTraceStateProperty key val s = (Inl NotInSpanError, s)"
    using st by (simp add: setTraceStateProperty_def getStore_def)
  have h: "deleteTraceStateProperty key s = (Inl NotInSpanError, s)"
    using st by (simp add: deleteTraceStateProperty_def getStore_def)
  have i: "isInsideOfTraceSpan s = False"
    using st by (simp add: isInsideOfTraceSpan_def getStore_def)
  have j: "isInsideOfTraceSpan s' =
        (\<exists>c. getStore s' = Some c \<and> parentId (ctxs s' c) \<noteq> None \<and> traceId (ctxs s' c) \<noteq> None
           \<and> traceFlags (ctxs s' c) \<noteq> None \<and> version (ctxs s' c) \<noteq> None)"
    by (cases "getStore s'") (simp_all add: isInsideOfTraceSpan_def)
  show ?thesis
    using a b c d e f g h i j getTrace_outside [OF st] getTraceChild_outside [OF st]
      getTraceState_outside [OF st]
    by blast
qed

text \<open>
  The theorem at the starting state.
\<close>

theorem accessors_outside_of_span_witness:
  "getStore initialState = None
   \<and> getSpanId initialState = (Inl NotInSpanError, initialState)
   \<and> getTraceStateString initialState = (Inl NotInSpanError, initialState)
   \<and> setContextData (Some DNull) initialState = (Inl NotInSpanError, initialState)
   \<and> setTraceStateProperty ''aKey'' ''aValue'' initialState = (Inl NotInSpanError, initialState)
   \<and> deleteTraceStateProperty ''aKey'' initialState = (Inl NotInSpanError, initialState)
   \<and> isInsideOfTraceSpan initialState = False"
proof -
  have h: "getStore initialState = None"
    by code_simp
  show ?thesis
    using h accessors_outside_of_span [OF h, where d = "Some DNull" and key = "''aKey''"
        and val = "''aValue''" and s' = initialState]
    by blast
qed

section \<open>Every bound context passes the completeness check\<close>

lemma Object_set_frame:
  "ctxs (snd (Object_set ob k v s)) = ctxs s" "store (snd (Object_set ob k v s)) = store s"
  "nextCtx (snd (Object_set ob k v s)) = nextCtx s"
  by (simp_all add: Object_set_def Let_def)

lemma Object_delete_frame:
  "ctxs (snd (Object_delete ob k s)) = ctxs s" "store (snd (Object_delete ob k s)) = store s"
  "nextCtx (snd (Object_delete ob k s)) = nextCtx s"
  by (simp_all add: Object_delete_def Let_def)

lemma Object_freeze_frame:
  "ctxs (Object_freeze ob s) = ctxs s" "store (Object_freeze ob s) = store s"
  "nextCtx (Object_freeze ob s) = nextCtx s"
  by (simp_all add: Object_freeze_def)

lemma isInside_cong:
  "store s' = store s \<Longrightarrow>
   (\<And>c. store s = Some c \<Longrightarrow> Trace.truncate (ctxs s' c) = Trace.truncate (ctxs s c)) \<Longrightarrow>
   isInsideOfTraceSpan s' = isInsideOfTraceSpan s"
  by (cases "store s") (auto simp: isInsideOfTraceSpan_def getStore_def Trace.truncate_def)

lemma isInside_getTraceState: "isInsideOfTraceSpan (snd (getTraceState s)) = isInsideOfTraceSpan s"
  by (rule isInside_cong)
     (simp_all add: getTraceState_def getStore_def Object_freeze_frame split: option.splits)

lemma isInside_getTraceStateString:
  "isInsideOfTraceSpan (snd (getTraceStateString s)) = isInsideOfTraceSpan s"
proof -
  have "snd (getTraceStateString s) = snd (getTraceState s)"
    by (simp add: getTraceStateString_def split: prod.splits sum.splits option.splits)
  then show ?thesis
    by (simp add: isInside_getTraceState)
qed

lemma isInside_getContextData: "isInsideOfTraceSpan (snd (getContextData s)) = isInsideOfTraceSpan s"
  by (rule isInside_cong)
     (simp_all add: getContextData_def getStore_def Object_freeze_frame
        split: option.splits jsdata.splits)

lemma isInside_setContextData: "isInsideOfTraceSpan (snd (setContextData d s)) = isInsideOfTraceSpan s"
  by (rule isInside_cong)
     (simp_all add: setContextData_def getStore_def Trace.truncate_def split: option.splits)

lemma isInside_setTraceStateProperty:
  "isInsideOfTraceSpan (snd (setTraceStateProperty key val s)) = isInsideOfTraceSpan s"
  by (rule isInside_cong)
     (simp_all add: setTraceStateProperty_def getStore_def newObject_def Object_set_frame
        Trace.truncate_def split_def Let_def split: option.splits)

lemma isInside_deleteTraceStateProperty:
  "isInsideOfTraceSpan (snd (deleteTraceStateProperty key s)) = isInsideOfTraceSpan s"
  by (rule isInside_cong)
     (simp_all add: deleteTraceStateProperty_def getStore_def Object_delete_frame
        split: option.splits)

lemma snd_getters:
  "snd (getSpanId s) = s" "snd (getTrace s) = s" "snd (getTraceString s) = s"
  "snd (getTraceChild s) = s" "snd (getTraceChildString s) = s"
  by (simp_all add: getSpanId_def getTrace_def getTraceString_def getTraceChild_def
      getTraceChildString_def split: option.splits)

text \<open>
  Claim C9. Call a state sound when nothing is bound in it or \<open>isInsideOfTraceSpan\<close>
  holds in it. From a sound state, whichever of the three branches \<open>span\<close> takes, the
  context it binds has \<open>parentId\<close>, \<open>traceId\<close>, \<open>version\<close> and \<open>traceFlags\<close> defined, so
  \<open>isInsideOfTraceSpan\<close> holds when the traced function starts; and no accessor or
  mutator changes what \<open>isInsideOfTraceSpan\<close> returns, so it keeps holding while the
  traced function uses them.
\<close>

theorem bound_context_is_complete:
  assumes "getStore s = None \<or> isInsideOfTraceSpan s"
  shows "isInsideOfTraceSpan (span_enter nm traceContext s)
    \<and> parentId (ctxs (span_enter nm traceContext s) (nextCtx s)) \<noteq> None
    \<and> traceId (ctxs (span_enter nm traceContext s) (nextCtx s)) \<noteq> None
    \<and> version (ctxs (span_enter nm traceContext s) (nextCtx s)) \<noteq> None
    \<and> traceFlags (ctxs (span_enter nm traceContext s) (nextCtx s)) \<noteq> None
    \<and> getStore (span_enter nm traceContext s) = Some (nextCtx s)
    \<and> fst (span nm tracedFunction traceContext s) = fst (tracedFunction (span_enter nm traceContext s))
    \<and> isInsideOfTraceSpan (snd (getSpanId s')) = isInsideOfTraceSpan s'
    \<and> isInsideOfTraceSpan (snd (getTrace s')) = isInsideOfTraceSpan s'
    \<and> isInsideOfTraceSpan (snd (getTraceString s')) = isInsideOfTraceSpan s'
    \<and> isInsideOfTraceSpan (snd (getTraceChild s')) = isInsideOfTraceSpan s'
    \<and> isInsideOfTraceSpan (snd (getTraceChildString s')) = isInsideOfTraceSpan s'
    \<and> isInsideOfTraceSpan (snd (getTraceState s')) = isInsideOfTraceSpan s'
    \<and> isInsideOfTraceSpan (snd (getTraceStateString s')) = isInsideOfTraceSpan s'
    \<and> isInsideOfTraceSpan (snd (getContextData s')) = isInsideOfTraceSpan s'
    \<and> isInsideOfTraceSpan (snd (setContextData d s')) = isInsideOfTraceSpan s'
    \<and> isInsideOfTraceSpan (snd (setTraceStateProperty key val s')) = isInsideOfTraceSpan s'
    \<and> isInsideOfTraceSpan (snd (deleteTraceStateProperty key s')) = isInsideOfTraceSpan s'"
proof -
  have fields: "parentId (ctxs (span_enter nm traceContext s) (nextCtx s)) \<noteq> None
    \<and> traceId (ctxs (span_enter nm traceContext s) (nextCtx s)) \<noteq> None
    \<and> version (ctxs (span_enter nm traceContext s) (nextCtx s)) \<noteq> None
    \<and> traceFlags (ctxs (span_enter nm traceContext s) (nextCtx s)) \<noteq> None"
  proof (cases traceContext)
    case (Some tc)
    then show ?thesis
      by (simp add: span_enter_seed)
  next
    case None
    show ?thesis
    proof (cases "store s")
      case None
      then show ?thesis
        using \<open>traceContext = None\<close> by (simp add: span_enter_fresh)
    next
      case (Some p)
      with assms have "isInsideOfTraceSpan s"
        by (simp add: getStore_def)
      with Some show ?thesis
        using \<open>traceContext = None\<close>
        by (simp add: span_enter_nested isInsideOfTraceSpan_def getStore_def)
    qed
  qed
  have bound: "getStore (span_enter nm traceContext s) = Some (nextCtx s)"
    by (simp add: getStore_def store_span_enter)
  have inside: "isInsideOfTraceSpan (span_enter nm traceContext s)"
    using fields bound by (simp add: isInsideOfTraceSpan_def)
  have link: "fst (span nm tracedFunction traceContext s)
      = fst (tracedFunction (span_enter nm traceContext s))"
    by (simp add: span_run)
  show ?thesis
    using fields bound inside link
    by (simp add: snd_getters isInside_getTraceState isInside_getTraceStateString
        isInside_getContextData isInside_setContextData isInside_setTraceStateProperty
        isInside_deleteTraceStateProperty)
qed

text \<open>
  The theorem inside the span entered from the starting state, for a nested span
  without and with a seed.
\<close>

theorem bound_context_is_complete_witness:
  "(getStore freshSpanState = None \<or> isInsideOfTraceSpan freshSpanState)
   \<and> isInsideOfTraceSpan freshSpanState
   \<and> isInsideOfTraceSpan (span_enter ''child'' None freshSpanState)
   \<and> isInsideOfTraceSpan (span_enter ''child'' (Some seedWithTraceState) freshSpanState)"
proof -
  have h: "isInsideOfTraceSpan freshSpanState"
    by code_simp
  then have h': "getStore freshSpanState = None \<or> isInsideOfTraceSpan freshSpanState"
    by simp
  show ?thesis
    using h bound_context_is_complete [OF h', where nm = "''child''" and traceContext = None]
      bound_context_is_complete [OF h', where nm = "''child''" and traceContext = "Some seedWithTraceState"]
    by blast
qed

section \<open>The trace state of nested spans\<close>

lemma Object_set_objs:
  "objs s1 = objs s \<Longrightarrow> objs (snd (Object_set ob k v s1)) = objs (snd (Object_set ob k v s))"
  by (simp add: Object_set_def Let_def)

lemma Object_delete_objs:
  "objs s1 = objs s \<Longrightarrow> objs (snd (Object_delete ob k s1)) = objs (snd (Object_delete ob k s))"
  by (simp add: Object_delete_def Let_def)

lemma span_enter_nested_facts:
  assumes "store s = Some p"
  shows "store (span_enter nm None s) = Some (nextCtx s)"
    and "traceState (ctxs (span_enter nm None s) (nextCtx s)) = traceState (ctxs s p)"
    and "p \<noteq> nextCtx s \<Longrightarrow> ctxs (span_enter nm None s) p = ctxs s p"
    and "objs (span_enter nm None s) = objs s"
  by (simp_all add: span_enter_nested [OF assms])

text \<open>
  Claim C2, as the code has it. Let a context with a trace-state object be bound, its
  record created earlier. A span nested in it with no seed gets a new record, and that
  record refers to the same trace-state object. Calling \<open>setTraceStateProperty\<close> or
  \<open>deleteTraceStateProperty\<close> in the nested span leaves the parent's record as it was,
  every field of it, the reference to the trace-state object included, and the parent
  is the bound context again afterwards. The call acts on the shared object: the
  objects afterwards are those the same assignment or deletion on the parent's trace
  state gives.
\<close>

theorem child_leaves_parent_record:
  assumes "getStore s = Some p" and "p < nextCtx s" and "traceState (ctxs s p) = Some ts"
  shows "ctxs (snd (span nm (setTraceStateProperty key val) None s)) p = ctxs s p
    \<and> ctxs (snd (span nm (deleteTraceStateProperty key) None s)) p = ctxs s p
    \<and> getStore (snd (span nm (setTraceStateProperty key val) None s)) = Some p
    \<and> getStore (snd (span nm (deleteTraceStateProperty key) None s)) = Some p
    \<and> fst (span_newContext nm None s) \<noteq> p
    \<and> traceState (ctxs (span_enter nm None s) (fst (span_newContext nm None s))) = Some ts
    \<and> objs (snd (span nm (setTraceStateProperty key val) None s)) = objs (snd (Object_set ts key val s))
    \<and> objs (snd (span nm (deleteTraceStateProperty key) None s)) = objs (snd (Object_delete ts key s))"
proof -
  from assms(1) have st: "store s = Some p"
    by (simp add: getStore_def)
  from assms(2) have ne: "p \<noteq> nextCtx s"
    by simp
  define e where "e = span_enter nm None s"
  have e1: "store e = Some (nextCtx s)"
    unfolding e_def by (rule span_enter_nested_facts(1) [OF st])
  have e2: "traceState (ctxs e (nextCtx s)) = Some ts"
    unfolding e_def using span_enter_nested_facts(2) [OF st] assms(3) by simp
  have e3: "ctxs e p = ctxs s p"
    unfolding e_def by (rule span_enter_nested_facts(3) [OF st ne])
  have e4: "objs e = objs s"
    unfolding e_def by (rule span_enter_nested_facts(4) [OF st])
  have set: "setTraceStateProperty key val e = Object_set ts key val e"
    using e1 e2 by (simp add: setTraceStateProperty_def getStore_def)
  have del: "deleteTraceStateProperty key e = Object_delete ts key e"
    using e1 e2 by (simp add: deleteTraceStateProperty_def getStore_def)
  have sp1: "snd (span nm (setTraceStateProperty key val) None s)
      = (snd (Object_set ts key val e))\<lparr>store := Some p\<rparr>"
    by (simp add: span_run set st flip: e_def)
  have sp2: "snd (span nm (deleteTraceStateProperty key) None s)
      = (snd (Object_delete ts key e))\<lparr>store := Some p\<rparr>"
    by (simp add: span_run del st flip: e_def)
  have c1: "ctxs (snd (span nm (setTraceStateProperty key val) None s)) p = ctxs s p"
    by (simp add: sp1 Object_set_frame e3)
  have c2: "ctxs (snd (span nm (deleteTraceStateProperty key) None s)) p = ctxs s p"
    by (simp add: sp2 Object_delete_frame e3)
  have c3: "getStore (snd (span nm (setTraceStateProperty key val) None s)) = Some p"
    by (simp add: sp1 getStore_def)
  have c4: "getStore (snd (span nm (deleteTraceStateProperty key) None s)) = Some p"
    by (simp add: sp2 getStore_def)
  have c5: "fst (span_newContext nm None s) \<noteq> p"
    using ne by (simp add: fst_span_newContext)
  have c6: "traceState (ctxs (span_enter nm None s) (fst (span_newContext nm None s))) = Some ts"
    using e2 by (simp add: fst_span_newContext e_def)
  have c7: "objs (snd (span nm (setTraceStateProperty key val) None s))
      = objs (snd (Object_set ts key val s))"
    by (simp add: sp1 Object_set_objs [OF e4])
  have c8: "objs (snd (span nm (deleteTraceStateProperty key) None s))
      = objs (snd (Object_delete ts key s))"
    by (simp add: sp2 Object_delete_objs [OF e4])
  from c1 c2 c3 c4 c5 c6 c7 c8 show ?thesis
    by blast
qed

text \<open>
  The theorem at the seeded span of the host and the nested span that sets \<open>aKey\<close>.
\<close>

theorem child_leaves_parent_record_witness:
  "getStore seededSpanState = Some 0 \<and> 0 < nextCtx seededSpanState
   \<and> traceState (ctxs seededSpanState 0) = Some 0
   \<and> ctxs afterChildWrite 0 = ctxs seededSpanState 0
   \<and> getStore afterChildWrite = Some 0
   \<and> objs afterChildWrite = objs (snd (Object_set 0 ''aKey'' ''aValue'' seededSpanState))"
proof -
  have h1: "getStore seededSpanState = Some 0"
    by code_simp
  have h2: "0 < nextCtx seededSpanState"
    by code_simp
  have h3: "traceState (ctxs seededSpanState 0) = Some 0"
    by code_simp
  note t = child_leaves_parent_record [OF h1 h2 h3, where nm = "''child''" and key = "''aKey''"
        and val = "''aValue''", folded afterChildWrite_def]
  from h1 h2 h3 t show ?thesis
    by simp
qed

text \<open>
  Claim C2 as stated says more: that the parent's trace-state mapping is unchanged as
  well. It is not. The seeded span's trace state is \<open>{aStateKey: 'aStateValue'}\<close>; after
  the nested span has set \<open>aKey\<close>, the parent is bound again and its trace state has
  the entry \<open>aKey\<close> too.
\<close>

theorem child_write_reaches_parent_trace_state:
  "getStore seededSpanState = Some 0
   \<and> traceState (ctxs seededSpanState 0) = Some 0
   \<and> boundTraceStateEntries seededSpanState = Some [(''aStateKey'', ''aStateValue'')]
   \<and> getStore afterChildWrite = Some 0
   \<and> boundTraceStateEntries afterChildWrite
        = Some [(''aStateKey'', ''aStateValue''), (''aKey'', ''aValue'')]
   \<and> boundTraceStateEntries afterChildWrite \<noteq> boundTraceStateEntries seededSpanState"
proof -
  have a: "getStore seededSpanState = Some 0"
    by code_simp
  have b: "traceState (ctxs seededSpanState 0) = Some 0"
    by code_simp
  have c: "boundTraceStateEntries seededSpanState = Some [(''aStateKey'', ''aStateValue'')]"
    by code_simp
  have d: "getStore afterChildWrite = Some 0"
    by code_simp
  have e: "boundTraceStateEntries afterChildWrite
        = Some [(''aStateKey'', ''aStateValue''), (''aKey'', ''aValue'')]"
    by code_simp
  from a b c d e show ?thesis
    by simp
qed

section \<open>The trace-state string\<close>

lemma reduceFrom_traceStateReducer:
  "xs \<noteq> [] \<Longrightarrow> i + length xs = length arr \<Longrightarrow>
   reduceFrom traceStateReducer arr i xs acc
     = acc @ joinWith '','' (map (\<lambda>(k, v). ''='' @ k @ '','' @ v) xs)"
proof (induction xs arbitrary: i acc)
  case Nil
  then show ?case by simp
next
  case (Cons x xs)
  obtain k v where x: "x = (k, v)"
    by (cases x)
  show ?case
  proof (cases xs)
    case Nil
    with Cons.prems have "int i = int (length arr) - 1"
      by simp
    with Nil x show ?thesis
      by (simp add: traceStateReducer_def)
  next
    case (Cons y ys)
    with Cons.prems have "int i \<noteq> int (length arr) - 1"
      by simp
    then have step: "traceStateReducer acc x i arr = acc @ ''='' @ k @ '','' @ v @ '',''"
      by (simp add: traceStateReducer_def x)
    have "xs \<noteq> []" and "Suc i + length xs = length arr"
      using Cons Cons.prems by simp_all
    then have "reduceFrom traceStateReducer arr (Suc i) xs (traceStateReducer acc x i arr)
        = traceStateReducer acc x i arr @ joinWith '','' (map (\<lambda>(k, v). ''='' @ k @ '','' @ v) xs)"
      by (rule Cons.IH)
    moreover have "joinWith '','' (map (\<lambda>(k, v). ''='' @ k @ '','' @ v) (x # xs))
        = (''='' @ k @ '','' @ v) @ '','' @ joinWith '','' (map (\<lambda>(k, v). ''='' @ k @ '','' @ v) xs)"
      using Cons x by simp
    ultimately show ?thesis
      by (simp add: step)
  qed
qed

lemma getTraceStateString_value:
  assumes "store s = Some c" and "traceState (ctxs s c) = Some ts" and "entries (objs s ts) \<noteq> []"
  shows "fst (getTraceStateString s)
     = Inr (Some (joinWith '','' (map (\<lambda>(k, v). ''='' @ k @ '','' @ v) (entries (objs s ts)))))"
  using assms
  by (simp add: getTraceStateString_def getTraceState_def getStore_def Object_freeze_def
      Object_keys_def Object_entries_def reduce_def reduceFrom_traceStateReducer)

lemma getTraceStateString_undefined:
  assumes "store s = Some c"
    and "traceState (ctxs s c) = None \<or> (\<exists>ts. traceState (ctxs s c) = Some ts \<and> entries (objs s ts) = [])"
  shows "fst (getTraceStateString s) = Inr None"
  using assms
  by (auto simp: getTraceStateString_def getTraceState_def getStore_def Object_freeze_def
      Object_keys_def)

lemma length_joinWith:
  "length (joinWith sep xs) = sum_list (map length xs) + (length xs - 1) * length sep"
  by (induction sep xs rule: joinWith.induct) simp_all

lemma code_and_spec_serialization_differ:
  assumes "es \<noteq> []"
  shows "joinWith '','' (map (\<lambda>(k, v). ''='' @ k @ '','' @ v) es) \<noteq> specTraceStateString es"
proof -
  have "sum_list (map length (map (\<lambda>(k, v). ''='' @ k @ '','' @ v) es))
      = sum_list (map length (map (\<lambda>(k, v). k @ ''='' @ v) es)) + length es"
    by (induction es) (simp_all add: split_def)
  then have "length (joinWith '','' (map (\<lambda>(k, v). ''='' @ k @ '','' @ v) es))
      = length (specTraceStateString es) + length es"
    by (simp add: length_joinWith specTraceStateString_def)
  with assms show ?thesis
    by (metis add_cancel_right_right length_0_conv)
qed

text \<open>
  Claim C1. For a bound context with a non-empty trace state, \<open>getTraceStateString\<close>
  is to return the entries as \<open>key=value\<close> pairs joined by commas, in iteration order.
  For the trace state \<open>{aStateKey: 'aStateValue'}\<close> of the seeded span this text is
  \<open>aStateKey=aStateValue\<close>; what the code returns there is \<open>=aStateKey,aStateValue\<close>.
\<close>

theorem getTraceStateString_on_one_entry:
  "fst (span ''test span'' getTraceStateString (Some seedWithTraceState) hostState)
     = Inr (Some ''=aStateKey,aStateValue'')
   \<and> specTraceStateString [(''aStateKey'', ''aStateValue'')] = ''aStateKey=aStateValue''
   \<and> boundTraceStateEntries seededSpanState = Some [(''aStateKey'', ''aStateValue'')]"
  by code_simp

section \<open>Writing the trace state after reading it\<close>

lemma setTraceStateProperty_after_getTraceState:
  assumes "store s = Some c" and "traceState (ctxs s c) = Some ts"
    and "key \<in> set (Object_keys s ts)"
  shows "fst (setTraceStateProperty key val (snd (getTraceState s))) = Inl TypeError"
  using assms
  by (simp add: getTraceState_def getStore_def setTraceStateProperty_def Object_freeze_def
      Object_set_def Object_keys_def)

text \<open>
  Claim C3. Inside a span, after \<open>setTraceStateProperty("k","v")\<close> and
  \<open>getTraceState()\<close>, a further \<open>setTraceStateProperty("k","w")\<close> is to overwrite the
  value, so that \<open>getTraceState()\<close> yields \<open>{k: "w"}\<close>. In the code the first call sets
  the property and the read returns the trace-state object, frozen; the second
  assignment then raises a \<open>TypeError\<close> and the trace state stays \<open>{k: "v"}\<close>.
\<close>

theorem set_after_read_raises:
  "fst (setTraceStateProperty ''k'' ''v'' freshSpanState) = Inr ()
   \<and> boundTraceStateEntries afterFirstSet = Some [(''k'', ''v'')]
   \<and> fst (getTraceState afterFirstSet) = Inr (Some 0)
   \<and> fst (setTraceStateProperty ''k'' ''w'' afterRead) = Inl TypeError
   \<and> boundTraceStateEntries (snd (setTraceStateProperty ''k'' ''w'' afterRead)) = Some [(''k'', ''v'')]
   \<and> fst (span ''s'' setReadSetRead None initialState) = Inl TypeError"
  by code_simp

end
